theory Spec2Isabelle
  imports Main "HOL-Library.Sublist" "HOL-Library.Multiset"
begin

section \<open>AgentAudit MCP server: a shallow embedding of \<^verbatim>\<open>src/index.ts\<close>\<close>

text \<open>
  Conventions of the embedding.
  \<^item> A JavaScript string is a \<open>string\<close> (a list of 8-bit characters); text outside ASCII is
    carried as its UTF-8 bytes, so the glyphs of the source are byte sequences here. Lengths
    and case mapping are exact for ASCII text.
  \<^item> A JavaScript number that holds a score or a count is an \<open>int\<close>, as the data model has
    it (integer scores, non-negative counts).
  \<^item> A thrown \<^verbatim>\<open>Error\<close> is a value \<open>Error msg\<close>; a function that can throw returns
    \<open>error + 'a\<close> with \<open>Inl\<close> the thrown error.
  \<^item> Library and platform functions the source calls (\<^verbatim>\<open>fetch\<close>, \<^verbatim>\<open>JSON.parse\<close>,
    \<^verbatim>\<open>encodeURIComponent\<close>, \<^verbatim>\<open>Date\<close>, the file system) are parameters.
\<close>

subsection \<open>Strings and numbers\<close>

text \<open>\<^verbatim>\<open>s.startsWith(p)\<close>\<close>

definition startsWith :: "string \<Rightarrow> string \<Rightarrow> bool" where
  "startsWith s p = prefix p s"

text \<open>\<^verbatim>\<open>s.includes(q)\<close>: \<open>q\<close> occurs in \<open>s\<close> as a contiguous substring.\<close>

fun includes_str :: "string \<Rightarrow> string \<Rightarrow> bool" where
  "includes_str [] q = (q = [])"
| "includes_str (c # cs) q = (prefix q (c # cs) \<or> includes_str cs q)"

text \<open>
  \<^verbatim>\<open>xs.slice(0, end)\<close> on a string or an array: a negative \<open>end\<close> counts from the end of
  \<open>xs\<close>, and the result is empty when the end position is not after the start.
\<close>

definition slice0 :: "'a list \<Rightarrow> int \<Rightarrow> 'a list" where
  "slice0 xs end = (if end < 0 then take (nat (int (length xs) + end)) xs else take (nat end) xs)"

text \<open>\<^verbatim>\<open>parts.join(sep)\<close>\<close>

fun join :: "string \<Rightarrow> string list \<Rightarrow> string" where
  "join sep [] = []"
| "join sep [x] = x"
| "join sep (x # y # ys) = x @ sep @ join sep (y # ys)"

text \<open>The decimal text of a number, as a template literal renders an integer.\<close>

definition digit_char :: "nat \<Rightarrow> char" where
  "digit_char d = char_of (48 + d)"

fun show_nat :: "nat \<Rightarrow> string" where
  "show_nat n = (if n < 10 then [digit_char n] else show_nat (n div 10) @ [digit_char (n mod 10)])"

declare show_nat.simps [simp del]

definition show_int :: "int \<Rightarrow> string" where
  "show_int i = (if i < 0 then CHR ''-'' # show_nat (nat (- i)) else show_nat (nat i))"

text \<open>\<^verbatim>\<open>s.toLowerCase()\<close> and \<^verbatim>\<open>s.toUpperCase()\<close>, on the ASCII letters.\<close>

definition lower_char :: "char \<Rightarrow> char" where
  "lower_char c = (let n = (of_char c :: nat) in if 65 \<le> n \<and> n \<le> 90 then char_of (n + 32) else c)"

definition upper_char :: "char \<Rightarrow> char" where
  "upper_char c = (let n = (of_char c :: nat) in if 97 \<le> n \<and> n \<le> 122 then char_of (n - 32) else c)"

definition toLowerCase :: "string \<Rightarrow> string" where
  "toLowerCase s = map lower_char s"

definition toUpperCase :: "string \<Rightarrow> string" where
  "toUpperCase s = map upper_char s"

subsection \<open>Errors and the HTTP client adapter\<close>

datatype error = Error (message: string)

text \<open>
  What \<^verbatim>\<open>await fetch(url, ...)\<close> followed by \<^verbatim>\<open>await res.text()\<close> gives: a rejection
  (network failure, the abort of the 10 second timer, a failed body read) or a response
  with its status code and body text.
\<close>

datatype fetch_outcome = Rejected error | Responded nat string

text \<open>\<^verbatim>\<open>res.ok\<close>: the status is in the range 200 to 299.\<close>

definition ok :: "nat \<Rightarrow> bool" where
  "ok status = (200 \<le> status \<and> status \<le> 299)"

text \<open>
  \<^verbatim>\<open>apiFetch(url)\<close>. \<open>JSON_parse\<close> is \<^verbatim>\<open>JSON.parse\<close>, read at the type the caller uses
  the value at (\<open>Inl\<close> its SyntaxError); the result \<open>Inr None\<close> is the returned
  \<^verbatim>\<open>null\<close>.
\<close>

definition apiFetch ::
  "(string \<Rightarrow> error + 'j) \<Rightarrow> (string \<Rightarrow> fetch_outcome) \<Rightarrow> string \<Rightarrow> error + 'j option" where
  "apiFetch JSON_parse net url =
     (case net url of
        Rejected e \<Rightarrow> Inl e
      | Responded status text \<Rightarrow>
          if \<not> ok status then
            (if startsWith text ''<!DOCTYPE'' \<or> startsWith text ''<html'' then Inr None
             else Inl (Error (''HTTP '' @ show_nat status @ '': '' @ slice0 text 200)))
          else if startsWith text ''<!DOCTYPE'' \<or> startsWith text ''<html'' then Inr None
          else (case JSON_parse text of Inl e \<Rightarrow> Inl e | Inr v \<Rightarrow> Inr (Some v)))"

subsection \<open>Remote documents and lookup records\<close>

text \<open>
  A property read from a parsed JSON value: \<^verbatim>\<open>undefined\<close> (no such property),
  \<^verbatim>\<open>null\<close>, or a value of the type the TypeScript interface declares for it.
\<close>

datatype 'a field = Undefined | Null | Val 'a

text \<open>\<^verbatim>\<open>x ?? d\<close> at a value type, and \<^verbatim>\<open>x ?? null\<close>.\<close>

fun nullish_or :: "'a field \<Rightarrow> 'a \<Rightarrow> 'a" where
  "nullish_or (Val v) d = v"
| "nullish_or Null d = d"
| "nullish_or Undefined d = d"

fun or_null :: "'a field \<Rightarrow> 'a option" where
  "or_null (Val v) = Some v"
| "or_null Null = None"
| "or_null Undefined = None"

text \<open>A value of type \<^verbatim>\<open>T | null\<close> passed where any value may arrive.\<close>

fun nullable :: "'a option \<Rightarrow> 'a field" where
  "nullable None = Null"
| "nullable (Some v) = Val v"

text \<open>
  The skill document of the remote service, seen through the properties the source reads
  from it, each at the type of the \<^verbatim>\<open>SkillResult\<close> interface.
\<close>

record skill_doc =
  doc_slug :: "string field"
  doc_display_name :: "string field"
  doc_trust_score :: "int field"
  doc_latest_risk_score :: "int field"
  doc_latest_result :: "string field"
  doc_total_findings :: "int field"
  doc_total_reports :: "int field"
  doc_scan_type :: "string field"
  doc_source_url :: "string field"
  doc_first_audited_at :: "string field"
  doc_last_audited_at :: "string field"

text \<open>
  A parsed JSON value as \<^verbatim>\<open>if (!data)\<close> sees it: a falsy one (\<^verbatim>\<open>null\<close>,
  \<^verbatim>\<open>false\<close>, \<^verbatim>\<open>0\<close>, the empty string) or a truthy one with its properties (a truthy
  value that is not an object has none).
\<close>

datatype 'd parsed = Falsy | Truthy 'd

text \<open>
  The package list as \<^verbatim>\<open>!all || !Array.isArray(all)\<close> sees it: not an array, or an array
  of skill documents.
\<close>

datatype list_doc = NotArray | Array "skill_doc list"

text \<open>\<^verbatim>\<open>interface SkillResult\<close>; \<open>error\<close> is \<open>None\<close> when the property is absent.\<close>

record SkillResult =
  slug :: string
  display_name :: string
  trust_score :: "int option"
  latest_risk_score :: "int option"
  latest_result :: string
  total_findings :: int
  total_reports :: int
  scan_type :: string
  source_url :: "string option"
  first_audited_at :: "string option"
  last_audited_at :: "string option"
  error :: "string option"

text \<open>A generic parsed JSON value, for the configuration file.\<close>

datatype json =
  JNull | JBool bool | JNum int | JStr string | JArr "json list" | JObj "(string \<times> json) list"

text \<open>
  The environment of one handler invocation. \<open>fetch\<close> is the network (each URL is
  requested at most once per invocation); the three \<open>JSON_parse\<close> fields are
  \<^verbatim>\<open>JSON.parse\<close> at the three places it is called; \<open>iso_date s\<close> is
  \<^verbatim>\<open>new Date(s).toISOString().split("T")[0]\<close>, which throws a RangeError on an invalid
  date; \<open>env\<close> is \<^verbatim>\<open>process.env\<close>.
\<close>

record world =
  fetch :: "string \<Rightarrow> fetch_outcome"
  encodeURIComponent :: "string \<Rightarrow> error + string"
  JSON_parse_skill :: "string \<Rightarrow> error + skill_doc parsed"
  JSON_parse_list :: "string \<Rightarrow> error + list_doc"
  JSON_parse_config :: "string \<Rightarrow> error + json"
  iso_date :: "string \<Rightarrow> error + string"
  platform :: string
  env :: "string \<Rightarrow> string option"
  path_join :: "string list \<Rightarrow> string"
  existsSync :: "string \<Rightarrow> bool"
  readFileSync :: "string \<Rightarrow> error + string"

definition API_BASE :: string where
  "API_BASE = ''https://www.agentaudit.dev/api''"

text \<open>The two object literals \<^verbatim>\<open>fetchSkill\<close> returns on its failure paths.\<close>

definition not_found_result :: "string \<Rightarrow> SkillResult" where
  "not_found_result name =
     \<lparr>slug = name, display_name = name, trust_score = None, latest_risk_score = None,
      latest_result = ''unknown'', total_findings = 0, total_reports = 0,
      scan_type = ''unknown'', source_url = None, first_audited_at = None,
      last_audited_at = None, error = Some ''Package not found in AgentAudit database''\<rparr>"

definition caught_result :: "string \<Rightarrow> error \<Rightarrow> SkillResult" where
  "caught_result name e =
     \<lparr>slug = name, display_name = name, trust_score = None, latest_risk_score = None,
      latest_result = ''error'', total_findings = 0, total_reports = 0,
      scan_type = ''unknown'', source_url = None, first_audited_at = None,
      last_audited_at = None, error = Some (message e)\<rparr>"

text \<open>The object literal of the success path: each property coalesced to its default.\<close>

definition mapped_result :: "string \<Rightarrow> skill_doc \<Rightarrow> SkillResult" where
  "mapped_result name data =
     \<lparr>slug = nullish_or (doc_slug data) name,
      display_name = nullish_or (doc_display_name data) name,
      trust_score = or_null (doc_trust_score data),
      latest_risk_score = or_null (doc_latest_risk_score data),
      latest_result = nullish_or (doc_latest_result data) ''unknown'',
      total_findings = nullish_or (doc_total_findings data) 0,
      total_reports = nullish_or (doc_total_reports data) 0,
      scan_type = nullish_or (doc_scan_type data) ''unknown'',
      source_url = or_null (doc_source_url data),
      first_audited_at = or_null (doc_first_audited_at data),
      last_audited_at = or_null (doc_last_audited_at data),
      error = None\<rparr>"

text \<open>The \<^verbatim>\<open>try\<close> block of \<^verbatim>\<open>fetchSkill\<close>.\<close>

definition fetchSkill_try :: "world \<Rightarrow> string \<Rightarrow> error + SkillResult" where
  "fetchSkill_try w name =
     (case encodeURIComponent w name of
        Inl e \<Rightarrow> Inl e
      | Inr escaped \<Rightarrow>
          (case apiFetch (JSON_parse_skill w) (fetch w) (API_BASE @ ''/skills/'' @ escaped) of
             Inl e \<Rightarrow> Inl e
           | Inr None \<Rightarrow> Inr (not_found_result name)
           | Inr (Some Falsy) \<Rightarrow> Inr (not_found_result name)
           | Inr (Some (Truthy data)) \<Rightarrow> Inr (mapped_result name data)))"

text \<open>\<^verbatim>\<open>fetchSkill(name)\<close>: the \<^verbatim>\<open>try\<close> block under its \<^verbatim>\<open>catch\<close> clause.\<close>

definition fetchSkill :: "world \<Rightarrow> string \<Rightarrow> error + SkillResult" where
  "fetchSkill w name =
     (case fetchSkill_try w name of
        Inr r \<Rightarrow> Inr r
      | Inl e \<Rightarrow> Inr (caught_result name e))"

subsection \<open>The formatter\<close>

definition glyph_unknown :: string where
  "glyph_unknown = [CHR 0xE2, CHR 0x9D, CHR 0x93]"

definition glyph_red :: string where
  "glyph_red = [CHR 0xF0, CHR 0x9F, CHR 0x94, CHR 0xB4]"

definition glyph_yellow :: string where
  "glyph_yellow = [CHR 0xF0, CHR 0x9F, CHR 0x9F, CHR 0xA1]"

definition glyph_green :: string where
  "glyph_green = [CHR 0xF0, CHR 0x9F, CHR 0x9F, CHR 0xA2]"

definition glyph_warning :: string where
  "glyph_warning = [CHR 0xE2, CHR 0x9A, CHR 0xA0, CHR 0xEF, CHR 0xB8, CHR 0x8F]"

text \<open>
  \<^verbatim>\<open>score >= k\<close> for a number \<open>k\<close>: \<^verbatim>\<open>null\<close> converts to 0 and \<^verbatim>\<open>undefined\<close> to
  NaN, which compares false.
\<close>

fun js_ge :: "int field \<Rightarrow> int \<Rightarrow> bool" where
  "js_ge (Val n) k = (k \<le> n)"
| "js_ge Null k = (k \<le> 0)"
| "js_ge Undefined k = False"

definition riskEmoji :: "int field \<Rightarrow> string" where
  "riskEmoji score =
     (if score = Null then glyph_unknown
      else if js_ge score 70 then glyph_red
      else if js_ge score 40 then glyph_yellow
      else glyph_green)"

text \<open>Truthiness of an optional string: present and not empty.\<close>

fun truthy :: "string option \<Rightarrow> bool" where
  "truthy None = False"
| "truthy (Some s) = (s \<noteq> [])"

definition newline :: string where
  "newline = [CHR 0x0A]"

text \<open>The array \<^verbatim>\<open>lines\<close> that \<^verbatim>\<open>formatResult\<close> builds, push by push.\<close>

definition formatResult_lines :: "world \<Rightarrow> SkillResult \<Rightarrow> error + string list" where
  "formatResult_lines w r =
     (let lines = [riskEmoji (nullable (latest_risk_score r)) @ '' **'' @ display_name r
                     @ ''** ('' @ scan_type r @ '')'']
      in if truthy (error r) then
           Inr (lines @ [''  '' @ glyph_warning @ '' ''
                           @ (case error r of Some e \<Rightarrow> e | None \<Rightarrow> ''undefined'')])
         else
           (let lines = lines @ [''  Trust Score: ''
                  @ (case trust_score r of Some n \<Rightarrow> show_int n | None \<Rightarrow> ''N/A'') @ ''/100''];
                lines = lines @ [''  Risk Score: ''
                  @ (case latest_risk_score r of Some n \<Rightarrow> show_int n | None \<Rightarrow> ''N/A'') @ ''/100''];
                lines = lines @ [''  Verdict: '' @ toUpperCase (latest_result r)];
                lines = lines @ [''  Findings: '' @ show_int (total_findings r) @ '' (from ''
                  @ show_int (total_reports r) @ '' audit''
                  @ (if total_reports r \<noteq> 1 then ''s'' else []) @ '')''];
                lines = (if truthy (source_url r)
                         then lines @ [''  Source: ''
                                @ (case source_url r of Some u \<Rightarrow> u | None \<Rightarrow> ''null'')]
                         else lines)
            in case (if truthy (last_audited_at r)
                     then (case iso_date w (case last_audited_at r of Some d \<Rightarrow> d | None \<Rightarrow> ''null'') of
                             Inl e \<Rightarrow> Inl e
                           | Inr day \<Rightarrow> Inr (lines @ [''  Last audited: '' @ day]))
                     else Inr lines) of
                 Inl e \<Rightarrow> Inl e
               | Inr lines \<Rightarrow>
                   Inr (lines @ [''  Details: https://agentaudit.dev/packages/'' @ slug r])))"

text \<open>\<^verbatim>\<open>formatResult(r)\<close>: the lines joined by a line feed.\<close>

definition formatResult :: "world \<Rightarrow> SkillResult \<Rightarrow> error + string" where
  "formatResult w r =
     (case formatResult_lines w r of Inl e \<Rightarrow> Inl e | Inr lines \<Rightarrow> Inr (join newline lines))"

subsection \<open>The config extractor\<close>

text \<open>
  A \<open>JObj\<close> lists the properties of a parsed object in the order \<^verbatim>\<open>Object.entries\<close>
  enumerates them, each key once. The messages of the TypeErrors the engine raises are
  worded as Node's V8 words them.
\<close>

text \<open>
  \<^verbatim>\<open>v.k\<close> for one of the property names the extractor reads (\<^verbatim>\<open>mcpServers\<close>,
  \<^verbatim>\<open>mcp_servers\<close>, \<^verbatim>\<open>args\<close>): a TypeError on \<^verbatim>\<open>null\<close>, \<^verbatim>\<open>undefined\<close> (here
  \<open>None\<close>) on a value without the property.
\<close>

fun get_prop :: "json \<Rightarrow> string \<Rightarrow> error + json option" where
  "get_prop JNull k = Inl (Error (''Cannot read properties of null (reading '' @ [CHR 0x27] @ k @ [CHR 0x27] @ '')''))"
| "get_prop (JObj kvs) k = Inr (map_of kvs k)"
| "get_prop v k = Inr None"

text \<open>\<^verbatim>\<open>x ?? d\<close> on generic values, and its test: \<^verbatim>\<open>undefined\<close> or \<^verbatim>\<open>null\<close>.\<close>

fun json_or :: "json option \<Rightarrow> json \<Rightarrow> json" where
  "json_or None d = d"
| "json_or (Some JNull) d = d"
| "json_or (Some v) d = v"

fun nullish :: "json option \<Rightarrow> bool" where
  "nullish None = True"
| "nullish (Some JNull) = True"
| "nullish (Some v) = False"

text \<open>\<^verbatim>\<open>config.mcpServers ?? config.mcp_servers ?? {}\<close>\<close>

definition servers_of :: "json \<Rightarrow> error + json" where
  "servers_of config =
     (case get_prop config ''mcpServers'' of
        Inl e \<Rightarrow> Inl e
      | Inr a \<Rightarrow>
          (if \<not> nullish a then Inr (json_or a (JObj []))
           else (case get_prop config ''mcp_servers'' of
                   Inl e \<Rightarrow> Inl e
                 | Inr b \<Rightarrow> Inr (json_or b (JObj [])))))"

text \<open>
  \<^verbatim>\<open>Object.entries(v)\<close>: the properties of an object, the indexed elements of an array, the
  indexed characters of a string, nothing for a number or a boolean.
\<close>

fun entries :: "json \<Rightarrow> error + (string \<times> json) list" where
  "entries JNull = Inl (Error ''Cannot convert undefined or null to object'')"
| "entries (JObj kvs) = Inr kvs"
| "entries (JArr xs) = Inr (zip (map show_nat [0..<length xs]) xs)"
| "entries (JStr s) = Inr (zip (map show_nat [0..<length s]) (map (\<lambda>c. JStr [c]) s))"
| "entries v = Inr []"

text \<open>The values \<^verbatim>\<open>for (const arg of args)\<close> iterates: array elements or string characters.\<close>

fun iterate :: "json \<Rightarrow> error + json list" where
  "iterate (JArr xs) = Inr xs"
| "iterate (JStr s) = Inr (map (\<lambda>c. JStr [c]) s)"
| "iterate v = Inl (Error ''args is not iterable'')"

text \<open>\<^verbatim>\<open>/^[a-z@]/.test(arg)\<close>\<close>

fun leading_lower_or_at :: "string \<Rightarrow> bool" where
  "leading_lower_or_at [] = False"
| "leading_lower_or_at (c # cs) =
     (let n = (of_char c :: nat) in (97 \<le> n \<and> n \<le> 122) \<or> c = CHR ''@'')"

text \<open>The two nested conditions under which an argument is pushed.\<close>

definition is_candidate :: "string \<Rightarrow> bool" where
  "is_candidate arg =
     ((\<not> startsWith arg ''-'' \<and> \<not> startsWith arg ''/'' \<and> \<not> startsWith arg ''.''
         \<and> leading_lower_or_at arg)
      \<and> (arg \<noteq> ''-y'' \<and> arg \<noteq> ''node'' \<and> arg \<noteq> ''npx''))"

text \<open>The inner loop over the arguments; \<open>packages\<close> is the array pushed to.\<close>

fun scan_args :: "json list \<Rightarrow> string list \<Rightarrow> error + string list" where
  "scan_args [] packages = Inr packages"
| "scan_args (JStr arg # rest) packages =
     scan_args rest (if is_candidate arg then packages @ [arg] else packages)"
| "scan_args (JNull # rest) packages =
     Inl (Error (''Cannot read properties of null (reading '' @ [CHR 0x27] @ ''startsWith'' @ [CHR 0x27] @ '')''))"
| "scan_args (v # rest) packages = Inl (Error ''arg.startsWith is not a function'')"

text \<open>The outer loop over the entries of the server map.\<close>

fun scan_servers :: "(string \<times> json) list \<Rightarrow> string list \<Rightarrow> error + string list" where
  "scan_servers [] packages = Inr packages"
| "scan_servers ((key, val) # rest) packages =
     (case get_prop val ''args'' of
        Inl e \<Rightarrow> Inl e
      | Inr a \<Rightarrow>
          (case iterate (json_or a (JArr [])) of
             Inl e \<Rightarrow> Inl e
           | Inr args \<Rightarrow>
               (case scan_args args packages of
                  Inl e \<Rightarrow> Inl e
                | Inr packages' \<Rightarrow> scan_servers rest (packages' @ [key]))))"

text \<open>The array \<^verbatim>\<open>packages\<close> when the loops are done, before deduplication.\<close>

definition collectPackages :: "json \<Rightarrow> error + string list" where
  "collectPackages config =
     (case servers_of config of
        Inl e \<Rightarrow> Inl e
      | Inr servers \<Rightarrow>
          (case entries servers of
             Inl e \<Rightarrow> Inl e
           | Inr kvs \<Rightarrow> scan_servers kvs []))"

text \<open>\<^verbatim>\<open>[...new Set(packages)]\<close>: each value once, at its first position.\<close>

definition new_Set :: "string list \<Rightarrow> string list" where
  "new_Set xs = foldl (\<lambda>seen x. if x \<in> set seen then seen else seen @ [x]) [] xs"

definition extractPackagesFromConfig :: "world \<Rightarrow> string \<Rightarrow> error + string list" where
  "extractPackagesFromConfig w configPath =
     (case readFileSync w configPath of
        Inl e \<Rightarrow> Inl e
      | Inr raw \<Rightarrow>
          (case JSON_parse_config w raw of
             Inl e \<Rightarrow> Inl e
           | Inr config \<Rightarrow>
               (case collectPackages config of
                  Inl e \<Rightarrow> Inl e
                | Inr packages \<Rightarrow> Inr (new_Set packages))))"

subsection \<open>The scan handler\<close>


text \<open>
  \<^verbatim>\<open>Promise.all\<close> over settled promises, and \<^verbatim>\<open>map\<close> with a callback that may throw:
  the values in order, or the first error.
\<close>

fun all_or_error :: "(error + 'a) list \<Rightarrow> error + 'a list" where
  "all_or_error [] = Inr []"
| "all_or_error (Inl e # ps) = Inl e"
| "all_or_error (Inr v # ps) = (case all_or_error ps of Inl e \<Rightarrow> Inl e | Inr vs \<Rightarrow> Inr (v # vs))"



text \<open>\<^verbatim>\<open>r.latest_risk_score ?? d\<close>\<close>

definition risk_or :: "SkillResult \<Rightarrow> int \<Rightarrow> int" where
  "risk_or r d = (case latest_risk_score r of Some n \<Rightarrow> n | None \<Rightarrow> d)"

text \<open>The filter that counts the elevated risks, and the comparator of the sort.\<close>

definition risky :: "SkillResult list \<Rightarrow> SkillResult list" where
  "risky results = filter (\<lambda>r. \<not> truthy (error r) \<and> 40 \<le> risk_or r 0) results"


definition glyph_cross :: string where
  "glyph_cross = [CHR 0xE2, CHR 0x9D, CHR 0x8C]"




subsection \<open>The search handler\<close>

definition glyph_search :: string where
  "glyph_search = [CHR 0xF0, CHR 0x9F, CHR 0x94, CHR 0x8E]"

definition em_dash :: string where
  "em_dash = [CHR 0xE2, CHR 0x80, CHR 0x94]"

definition dquote :: string where
  "dquote = [CHR 0x22]"

text \<open>The callback of the filter, for the lower-cased query \<open>q\<close>.\<close>

definition matches_query :: "string \<Rightarrow> skill_doc \<Rightarrow> bool" where
  "matches_query q s =
     (includes_str (toLowerCase (nullish_or (doc_slug s) [])) q
      \<or> includes_str (toLowerCase (nullish_or (doc_display_name s) [])) q)"

text \<open>How a template literal renders a string property and a number coalesced with a text.\<close>

fun render :: "string field \<Rightarrow> string" where
  "render (Val s) = s"
| "render Null = ''null''"
| "render Undefined = ''undefined''"

fun number_or :: "int field \<Rightarrow> string \<Rightarrow> string" where
  "number_or (Val n) d = show_int n"
| "number_or Null d = d"
| "number_or Undefined d = d"

text \<open>The line pushed for one match.\<close>

definition search_line :: "skill_doc \<Rightarrow> string" where
  "search_line m =
     riskEmoji (doc_latest_risk_score m) @ '' **''
       @ render (case doc_display_name m of Val s \<Rightarrow> Val s | Null \<Rightarrow> doc_slug m | Undefined \<Rightarrow> doc_slug m)
       @ ''** '' @ em_dash @ '' Trust: '' @ number_or (doc_trust_score m) ''?''
       @ ''/100, Risk: '' @ number_or (doc_latest_risk_score m) ''?''
       @ ''/100, Verdict: '' @ toUpperCase (nullish_or (doc_latest_result m) ''?'')"

text \<open>The \<^verbatim>\<open>try\<close> block of the \<^verbatim>\<open>search_packages\<close> handler.\<close>

definition search_try :: "world \<Rightarrow> string \<Rightarrow> int option \<Rightarrow> error + string" where
  "search_try w query limit =
     (case apiFetch (JSON_parse_list w) (fetch w) (API_BASE @ ''/skills'') of
        Inl e \<Rightarrow> Inl e
      | Inr None \<Rightarrow> Inr (glyph_cross @ '' Failed to fetch package list'')
      | Inr (Some NotArray) \<Rightarrow> Inr (glyph_cross @ '' Failed to fetch package list'')
      | Inr (Some (Array all)) \<Rightarrow>
          (let q = toLowerCase query;
               matches = slice0 (filter (matches_query q) all)
                           (case limit of Some l \<Rightarrow> l | None \<Rightarrow> 10)
           in if length matches = 0 then
                Inr (''No packages matching '' @ dquote @ query @ dquote
                       @ '' found in AgentAudit database ('' @ show_nat (length all)
                       @ '' total packages).'')
              else
                Inr (join newline
                       ((glyph_search @ '' '' @ show_nat (length matches) @ '' results for ''
                           @ dquote @ query @ dquote @ '' ('' @ show_nat (length all)
                           @ '' total in database)'' @ newline)
                        # map search_line matches))))"

text \<open>The handler: the \<^verbatim>\<open>try\<close> block under its \<^verbatim>\<open>catch\<close> clause; the text of its content.\<close>

definition search_packages :: "world \<Rightarrow> string \<Rightarrow> int option \<Rightarrow> string" where
  "search_packages w query limit =
     (case search_try w query limit of
        Inr text \<Rightarrow> text
      | Inl e \<Rightarrow> glyph_cross @ '' Search failed: '' @ message e)"

subsection \<open>A sample environment\<close>

text \<open>
  A small world to run the handlers in: a Linux host whose configuration file is the one
  of the specification's example, and a service whose lookup endpoint knows the package
  \<^verbatim>\<open>fetch\<close>, answers unknown names with an HTML page under status 404 (for
  \<^verbatim>\<open>legacy\<close> a page whose doctype is written in lower case, for \<^verbatim>\<open>misrouted\<close> the page
  under status 200), fails on \<^verbatim>\<open>broken\<close> with status 500 and is unreachable for
  \<^verbatim>\<open>offline\<close>, and whose list endpoint returns three packages.
\<close>

definition no_doc :: skill_doc where
  "no_doc =
     \<lparr>doc_slug = Undefined, doc_display_name = Undefined, doc_trust_score = Undefined,
      doc_latest_risk_score = Undefined, doc_latest_result = Undefined,
      doc_total_findings = Undefined, doc_total_reports = Undefined,
      doc_scan_type = Undefined, doc_source_url = Undefined,
      doc_first_audited_at = Undefined, doc_last_audited_at = Undefined\<rparr>"

definition fetch_doc :: skill_doc where
  "fetch_doc =
     no_doc\<lparr>doc_slug := Val ''fetch'', doc_trust_score := Val 20,
            doc_latest_risk_score := Val 80, doc_latest_result := Val ''unsafe'',
            doc_total_findings := Val 4, doc_total_reports := Val 1,
            doc_scan_type := Val ''mcp'',
            doc_last_audited_at := Val ''2026-02-02T09:30:00.000Z''\<rparr>"

definition crewai_doc :: skill_doc where
  "crewai_doc =
     no_doc\<lparr>doc_slug := Val ''crewai'', doc_display_name := Val ''CrewAI'',
            doc_trust_score := Val 0, doc_latest_risk_score := Val 100,
            doc_latest_result := Val ''unsafe''\<rparr>"

definition crewai_tools_doc :: skill_doc where
  "crewai_tools_doc =
     no_doc\<lparr>doc_slug := Val ''crewai-tools'', doc_trust_score := Val 90,
            doc_latest_risk_score := Null, doc_latest_result := Val ''pass''\<rparr>"

definition fetch_body :: string where
  \<open>fetch_body = ''{"slug":"fetch","trust_score":20,"latest_risk_score":80,"latest_result":"unsafe","total_findings":4,"total_reports":1,"scan_type":"mcp","last_audited_at":"2026-02-02T09:30:00.000Z"}''\<close>

definition list_body :: string where
  \<open>list_body = ''[{"slug":"crewai","display_name":"CrewAI","trust_score":0,"latest_risk_score":100,"latest_result":"unsafe"},{"slug":"crewai-tools","trust_score":90,"latest_risk_score":null,"latest_result":"pass"},{"slug":"fetch"}]''\<close>

definition html_404 :: string where
  "html_404 = ''<!DOCTYPE html><html><body>Not Found</body></html>''"

definition html_404_lower :: string where
  "html_404_lower = ''<!doctype html><html><body>Not Found</body></html>''"

definition config_path :: string where
  "config_path = ''/home/u/.config/claude/claude_desktop_config.json''"

definition config_text :: string where
  \<open>config_text = ''{"mcpServers": {"fetch": {"args": ["-y", "mcp-server-fetch"]}}}''\<close>

definition config_json :: json where
  "config_json =
     JObj [(''mcpServers'',
            JObj [(''fetch'', JObj [(''args'', JArr [JStr ''-y'', JStr ''mcp-server-fetch''])])])]"

definition package_list :: "skill_doc list" where
  "package_list = [crewai_doc, crewai_tools_doc, no_doc\<lparr>doc_slug := Val ''fetch''\<rparr>]"

definition sample_fetch :: "string \<Rightarrow> fetch_outcome" where
  "sample_fetch url =
     (if url = ''https://www.agentaudit.dev/api/skills/fetch'' then Responded 200 fetch_body
      else if url = ''https://www.agentaudit.dev/api/skills/broken''
        then Responded 500 ''Internal Server Error''
      else if url = ''https://www.agentaudit.dev/api/skills/offline''
        then Rejected (Error ''fetch failed'')
      else if url = ''https://www.agentaudit.dev/api/skills/legacy''
        then Responded 404 html_404_lower
      else if url = ''https://www.agentaudit.dev/api/skills/misrouted''
        then Responded 200 html_404
      else if url = ''https://www.agentaudit.dev/api/skills'' then Responded 200 list_body
      else Responded 404 html_404)"

definition sample_world :: world where
  "sample_world =
     \<lparr>fetch = sample_fetch,
      encodeURIComponent = (\<lambda>s. Inr s),
      JSON_parse_skill = (\<lambda>t. if t = fetch_body then Inr (Truthy fetch_doc)
                               else Inl (Error ''Unexpected token'')),
      JSON_parse_list = (\<lambda>t. if t = list_body then Inr (Array package_list)
                              else Inl (Error ''Unexpected token'')),
      JSON_parse_config = (\<lambda>t. if t = config_text then Inr config_json
                                else Inl (Error ''Unexpected token'')),
      iso_date = (\<lambda>s. if s = ''2026-02-02T09:30:00.000Z'' then Inr ''2026-02-02''
                       else Inl (Error ''Invalid time value'')),
      platform = ''linux'',
      env = (\<lambda>v. if v = ''HOME'' then Some ''/home/u'' else None),
      path_join = join ''/'',
      existsSync = (\<lambda>p. p = config_path),
      readFileSync = (\<lambda>p. if p = config_path then Inr config_text
                           else Inl (Error ''ENOENT: no such file or directory''))\<rparr>"

section \<open>Properties\<close>

subsection \<open>The HTTP client adapter\<close>


lemma show_nat_500: "show_nat 500 = ''500''"
  by code_simp





subsection \<open>Package lookup\<close>

text \<open>
  C1. For every package name and every outcome of the remote call, \<open>fetchSkill\<close> returns
  a fully populated record and never raises: a null result of \<open>apiFetch\<close> (not found, or a
  falsy payload) gives the record with null scores, verdict \<^verbatim>\<open>unknown\<close> and the error
  text \<^verbatim>\<open>Package not found in AgentAudit database\<close>; an error thrown by \<open>apiFetch\<close>
  (or by the escaping of the name) gives a record with verdict \<^verbatim>\<open>error\<close> and the error's
  message as error text; a payload gives the record of its properties, each coalesced to
  its default, without error text.
\<close>

theorem fetchSkill_never_raises:
  "(\<exists>r. fetchSkill w name = Inr r)
 \<and> (\<forall>escaped. encodeURIComponent w name = Inr escaped \<longrightarrow>
      ((apiFetch (JSON_parse_skill w) (fetch w) (API_BASE @ ''/skills/'' @ escaped) = Inr None
        \<or> apiFetch (JSON_parse_skill w) (fetch w) (API_BASE @ ''/skills/'' @ escaped) = Inr (Some Falsy)) \<longrightarrow>
          fetchSkill w name =
            Inr \<lparr>slug = name, display_name = name, trust_score = None, latest_risk_score = None,
                 latest_result = ''unknown'', total_findings = 0, total_reports = 0,
                 scan_type = ''unknown'', source_url = None, first_audited_at = None,
                 last_audited_at = None, error = Some ''Package not found in AgentAudit database''\<rparr>)
    \<and> (\<forall>e. apiFetch (JSON_parse_skill w) (fetch w) (API_BASE @ ''/skills/'' @ escaped) = Inl e \<longrightarrow>
          fetchSkill w name =
            Inr \<lparr>slug = name, display_name = name, trust_score = None, latest_risk_score = None,
                 latest_result = ''error'', total_findings = 0, total_reports = 0,
                 scan_type = ''unknown'', source_url = None, first_audited_at = None,
                 last_audited_at = None, error = Some (message e)\<rparr>)
    \<and> (\<forall>data. apiFetch (JSON_parse_skill w) (fetch w) (API_BASE @ ''/skills/'' @ escaped)
                  = Inr (Some (Truthy data)) \<longrightarrow>
          fetchSkill w name =
            Inr \<lparr>slug = nullish_or (doc_slug data) name,
                 display_name = nullish_or (doc_display_name data) name,
                 trust_score = or_null (doc_trust_score data),
                 latest_risk_score = or_null (doc_latest_risk_score data),
                 latest_result = nullish_or (doc_latest_result data) ''unknown'',
                 total_findings = nullish_or (doc_total_findings data) 0,
                 total_reports = nullish_or (doc_total_reports data) 0,
                 scan_type = nullish_or (doc_scan_type data) ''unknown'',
                 source_url = or_null (doc_source_url data),
                 first_audited_at = or_null (doc_first_audited_at data),
                 last_audited_at = or_null (doc_last_audited_at data),
                 error = None\<rparr>))
 \<and> (\<forall>e. encodeURIComponent w name = Inl e \<longrightarrow>
        (\<exists>r. fetchSkill w name = Inr r \<and> latest_result r = ''error'' \<and> error r = Some (message e)))"
  by (auto simp: fetchSkill_def fetchSkill_try_def not_found_result_def caught_result_def
        mapped_result_def split: sum.splits option.splits parsed.splits)

lemma sample_lookup_ghost:
  "apiFetch (JSON_parse_skill sample_world) (fetch sample_world)
     ''https://www.agentaudit.dev/api/skills/nonexistent-pkg-xyz'' = Inr None"
  by (simp add: apiFetch_def sample_world_def sample_fetch_def API_BASE_def ok_def
        startsWith_def html_404_def)

lemma sample_lookup_broken:
  "apiFetch (JSON_parse_skill sample_world) (fetch sample_world)
     ''https://www.agentaudit.dev/api/skills/broken'' = Inl (Error ''HTTP 500: Internal Server Error'')"
  by (simp add: apiFetch_def sample_world_def sample_fetch_def API_BASE_def ok_def
        startsWith_def show_nat_500 slice0_def)

lemma sample_lookup_fetch:
  "apiFetch (JSON_parse_skill sample_world) (fetch sample_world)
     ''https://www.agentaudit.dev/api/skills/fetch'' = Inr (Some (Truthy fetch_doc))"
  by (simp add: apiFetch_def sample_world_def sample_fetch_def API_BASE_def ok_def
        startsWith_def fetch_body_def)

theorem fetchSkill_never_raises_witness:
  "fetchSkill sample_world ''nonexistent-pkg-xyz'' =
     Inr \<lparr>slug = ''nonexistent-pkg-xyz'', display_name = ''nonexistent-pkg-xyz'',
          trust_score = None, latest_risk_score = None,
          latest_result = ''unknown'', total_findings = 0, total_reports = 0,
          scan_type = ''unknown'', source_url = None, first_audited_at = None,
          last_audited_at = None, error = Some ''Package not found in AgentAudit database''\<rparr>
 \<and> fetchSkill sample_world ''broken'' =
     Inr \<lparr>slug = ''broken'', display_name = ''broken'', trust_score = None,
          latest_risk_score = None, latest_result = ''error'', total_findings = 0,
          total_reports = 0, scan_type = ''unknown'', source_url = None,
          first_audited_at = None, last_audited_at = None,
          error = Some ''HTTP 500: Internal Server Error''\<rparr>
 \<and> fetchSkill sample_world ''fetch'' =
     Inr \<lparr>slug = ''fetch'', display_name = ''fetch'', trust_score = Some 20,
          latest_risk_score = Some 80, latest_result = ''unsafe'', total_findings = 4,
          total_reports = 1, scan_type = ''mcp'', source_url = None,
          first_audited_at = None, last_audited_at = Some ''2026-02-02T09:30:00.000Z'',
          error = None\<rparr>"
proof -
  have enc: "\<And>s. encodeURIComponent sample_world s = Inr s"
    by (simp add: sample_world_def)
  show ?thesis
    using fetchSkill_never_raises [of sample_world "''nonexistent-pkg-xyz''"]
          fetchSkill_never_raises [of sample_world "''broken''"]
          fetchSkill_never_raises [of sample_world "''fetch''"]
    by (simp add: enc API_BASE_def sample_lookup_ghost sample_lookup_broken sample_lookup_fetch
          fetch_doc_def no_doc_def)
qed

subsection \<open>Glyphs and the formatter\<close>

text \<open>
  C8. For every risk score \<open>r\<close> (a number or null), \<open>riskEmoji\<close> yields the unknown
  glyph exactly when \<open>r\<close> is null, the high-severity glyph exactly when \<open>r \<ge> 70\<close>, the
  medium-severity glyph exactly when \<open>40 \<le> r < 70\<close> and the low-severity glyph exactly
  when \<open>r < 40\<close>; the four cases are exhaustive and exclude each other.
\<close>

theorem riskEmoji_thresholds:
  "(riskEmoji (nullable r) = glyph_unknown \<longleftrightarrow> r = None)
 \<and> (riskEmoji (nullable r) = glyph_red \<longleftrightarrow> (\<exists>n. r = Some n \<and> 70 \<le> n))
 \<and> (riskEmoji (nullable r) = glyph_yellow \<longleftrightarrow> (\<exists>n. r = Some n \<and> 40 \<le> n \<and> n < 70))
 \<and> (riskEmoji (nullable r) = glyph_green \<longleftrightarrow> (\<exists>n. r = Some n \<and> n < 40))"
  by (cases r) (auto simp: riskEmoji_def glyph_unknown_def glyph_red_def glyph_yellow_def glyph_green_def)

theorem riskEmoji_thresholds_witness:
  "riskEmoji Null = glyph_unknown \<and> riskEmoji (Val 70) = glyph_red
 \<and> riskEmoji (Val 69) = glyph_yellow \<and> riskEmoji (Val 40) = glyph_yellow
 \<and> riskEmoji (Val 39) = glyph_green \<and> riskEmoji (Val 0) = glyph_green"
  using riskEmoji_thresholds [of None] riskEmoji_thresholds [of "Some 70"]
        riskEmoji_thresholds [of "Some 69"] riskEmoji_thresholds [of "Some 40"]
        riskEmoji_thresholds [of "Some 39"] riskEmoji_thresholds [of "Some 0"]
  by simp

lemma show_int_0: "show_int 0 = ''0''"
  by code_simp

lemma show_int_1: "show_int 1 = ''1''"
  by code_simp

lemma show_int_4: "show_int 4 = ''4''"
  by code_simp

lemma show_int_20: "show_int 20 = ''20''"
  by code_simp

lemma show_int_80: "show_int 80 = ''80''"
  by code_simp

lemma show_int_100: "show_int 100 = ''100''"
  by code_simp

lemma upper_error: "toUpperCase ''error'' = ''ERROR''"
  by code_simp

lemma upper_unsafe: "toUpperCase ''unsafe'' = ''UNSAFE''"
  by code_simp

text \<open>
  C7 (amended). For every record whose error text is present and not empty,
  \<open>formatResult\<close> emits the header line (glyph, display name, scan type) and one warning
  line with the error text, and nothing else. For every record whose error text is absent
  or empty, and whose last-audited date is absent, empty or a valid date, it emits in
  this order: the header, the trust score and the risk score (\<^verbatim>\<open>N/A\<close> for a null
  score) over 100, the verdict in upper case, the finding count with the report count and
  the noun \<^verbatim>\<open>audit\<close> exactly when the report count is 1 (\<^verbatim>\<open>audits\<close> otherwise), the
  source line when the source URL is present and not empty, the last-audited line when the
  date is present and not empty, and the details link built from the slug.
\<close>

theorem formatResult_layout:
  "(let header = riskEmoji (nullable (latest_risk_score r)) @ '' **'' @ display_name r
                   @ ''** ('' @ scan_type r @ '')'';
        scores = [''  Trust Score: '' @ (case trust_score r of None \<Rightarrow> ''N/A'' | Some n \<Rightarrow> show_int n) @ ''/100'',
                  ''  Risk Score: '' @ (case latest_risk_score r of None \<Rightarrow> ''N/A'' | Some n \<Rightarrow> show_int n) @ ''/100'',
                  ''  Verdict: '' @ toUpperCase (latest_result r),
                  ''  Findings: '' @ show_int (total_findings r) @ '' (from '' @ show_int (total_reports r)
                     @ (if total_reports r = 1 then '' audit)'' else '' audits)'')];
        source = (case source_url r of None \<Rightarrow> [] | Some u \<Rightarrow> if u = [] then [] else [''  Source: '' @ u]);
        details = [''  Details: https://agentaudit.dev/packages/'' @ slug r]
    in (\<forall>e. error r = Some e \<and> e \<noteq> [] \<longrightarrow>
          formatResult w r = Inr (join newline [header, ''  '' @ glyph_warning @ '' '' @ e]))
     \<and> ((error r = None \<or> error r = Some []) \<longrightarrow>
          ((last_audited_at r = None \<or> last_audited_at r = Some []) \<longrightarrow>
             formatResult w r = Inr (join newline (header # scores @ source @ details)))
        \<and> (\<forall>d day. last_audited_at r = Some d \<and> d \<noteq> [] \<and> iso_date w d = Inr day \<longrightarrow>
             formatResult w r
               = Inr (join newline (header # scores @ source @ [''  Last audited: '' @ day] @ details)))))"
  unfolding formatResult_def formatResult_lines_def Let_def
  by (cases "error r"; cases "source_url r"; cases "last_audited_at r") simp_all

text \<open>
  The claim C7 as stated fails on a record whose error text is present but empty: the
  test \<^verbatim>\<open>if (r.error)\<close> is false on the empty string, and the score lines are emitted.
\<close>

theorem formatResult_empty_error_counterexample:
  "error \<lparr>slug = ''offline'', display_name = ''offline'', trust_score = None,
          latest_risk_score = None, latest_result = ''error'', total_findings = 0,
          total_reports = 0, scan_type = ''unknown'', source_url = None,
          first_audited_at = None, last_audited_at = None, error = Some []\<rparr> = Some []
 \<and> formatResult sample_world
      \<lparr>slug = ''offline'', display_name = ''offline'', trust_score = None,
          latest_risk_score = None, latest_result = ''error'', total_findings = 0,
          total_reports = 0, scan_type = ''unknown'', source_url = None,
          first_audited_at = None, last_audited_at = None, error = Some []\<rparr>
    = Inr (join newline
        [glyph_unknown @ '' **offline** (unknown)'',
         ''  Trust Score: N/A/100'',
         ''  Risk Score: N/A/100'',
         ''  Verdict: ERROR'',
         ''  Findings: 0 (from 0 audits)'',
         ''  Details: https://agentaudit.dev/packages/offline''])"
  by (simp add: formatResult_def formatResult_lines_def riskEmoji_def upper_error show_int_0)

theorem formatResult_layout_witness:
  "formatResult sample_world (not_found_result ''ghost'')
     = Inr (join newline
         [glyph_unknown @ '' **ghost** (unknown)'',
          ''  '' @ glyph_warning @ '' Package not found in AgentAudit database''])
 \<and> formatResult sample_world (mapped_result ''crewai'' crewai_doc)
     = Inr (join newline
         [glyph_red @ '' **CrewAI** (unknown)'',
          ''  Trust Score: 0/100'',
          ''  Risk Score: 100/100'',
          ''  Verdict: UNSAFE'',
          ''  Findings: 0 (from 0 audits)'',
          ''  Details: https://agentaudit.dev/packages/crewai''])
 \<and> formatResult sample_world (mapped_result ''fetch'' fetch_doc)
     = Inr (join newline
         [glyph_red @ '' **fetch** (mcp)'',
          ''  Trust Score: 20/100'',
          ''  Risk Score: 80/100'',
          ''  Verdict: UNSAFE'',
          ''  Findings: 4 (from 1 audit)'',
          ''  Last audited: 2026-02-02'',
          ''  Details: https://agentaudit.dev/packages/fetch''])"
  using formatResult_layout [of "not_found_result ''ghost''" sample_world]
        formatResult_layout [of "mapped_result ''crewai'' crewai_doc" sample_world]
        formatResult_layout [of "mapped_result ''fetch'' fetch_doc" sample_world]
  by (simp add: Let_def not_found_result_def mapped_result_def crewai_doc_def fetch_doc_def
        no_doc_def sample_world_def riskEmoji_def upper_unsafe
        show_int_0 show_int_1 show_int_4 show_int_20 show_int_80 show_int_100)

subsection \<open>The loops of the extractor\<close>

lemma scan_args_result:
  "scan_args args packages = Inr packages' \<Longrightarrow>
     \<exists>as. args = map JStr as \<and> packages' = packages @ filter is_candidate as"
proof (induction args packages rule: scan_args.induct)
  case (1 packages)
  then show ?case by simp
next
  case (2 arg rest packages)
  from "2.prems" have
    "scan_args rest (if is_candidate arg then packages @ [arg] else packages) = Inr packages'"
    by simp
  from "2.IH" [OF this] obtain as where
    as: "rest = map JStr as"
        "packages' = (if is_candidate arg then packages @ [arg] else packages) @ filter is_candidate as"
    by blast
  show ?case
    using as by (intro exI [of _ "arg # as"]) simp
qed simp_all

lemma scan_servers_append:
  "scan_servers (xs @ ys) packages =
     (case scan_servers xs packages of Inl e \<Rightarrow> Inl e | Inr packages' \<Rightarrow> scan_servers ys packages')"
  by (induction xs packages rule: scan_servers.induct) (auto split: sum.splits)

lemma scan_servers_extends:
  "scan_servers kvs packages = Inr packages' \<Longrightarrow> \<exists>more. packages' = packages @ more"
proof (induction kvs packages rule: scan_servers.induct)
  case (1 packages)
  then show ?case by simp
next
  case (2 key val rest packages)
  from "2.prems" obtain a args mid where
    a: "get_prop val ''args'' = Inr a" and
    it: "iterate (json_or a (JArr [])) = Inr args" and
    mid: "scan_args args packages = Inr mid" and
    rest: "scan_servers rest (mid @ [key]) = Inr packages'"
    by (auto split: sum.splits)
  from scan_args_result [OF mid] obtain as where "mid = packages @ filter is_candidate as"
    by blast
  moreover from "2.IH" [OF a it mid rest] obtain more where "packages' = (mid @ [key]) @ more"
    by blast
  ultimately show ?case by simp
qed

text \<open>
  C3 (amended). For every parsed configuration document and every entry of its server
  map, when the extraction does not throw, the candidates drawn from the entry's
  launch-argument list are recorded first and the entry's own key right after them: in
  the order before deduplication, the candidates of the earlier entries come first, then
  the accepted argument tokens of this entry in their order, then its key, then the
  candidates of the later entries.
\<close>

theorem key_follows_its_arguments:
  assumes "servers_of config = Inr servers"
    and "entries servers = Inr (before @ (key, val) # after)"
    and "collectPackages config = Inr packages"
  shows "\<exists>a args pre post.
           get_prop val ''args'' = Inr a
         \<and> iterate (json_or a (JArr [])) = Inr (map JStr args)
         \<and> scan_servers before [] = Inr pre
         \<and> packages = pre @ filter is_candidate args @ [key] @ post"
proof -
  from assms have all: "scan_servers (before @ (key, val) # after) [] = Inr packages"
    by (simp add: collectPackages_def)
  then obtain pre where pre: "scan_servers before [] = Inr pre"
    and tail: "scan_servers ((key, val) # after) pre = Inr packages"
    by (auto simp: scan_servers_append split: sum.splits)
  from tail obtain a items mid where
    a: "get_prop val ''args'' = Inr a" and
    it: "iterate (json_or a (JArr [])) = Inr items" and
    mid: "scan_args items pre = Inr mid" and
    rest: "scan_servers after (mid @ [key]) = Inr packages"
    by (auto split: sum.splits)
  from scan_args_result [OF mid] obtain args where
    args: "items = map JStr args" "mid = pre @ filter is_candidate args"
    by blast
  from scan_servers_extends [OF rest] obtain post where "packages = (mid @ [key]) @ post"
    by blast
  with args a it pre show ?thesis by auto
qed

lemma collect_config_json: "collectPackages config_json = Inr [''mcp-server-fetch'', ''fetch'']"
  by (simp add: collectPackages_def config_json_def servers_of_def is_candidate_def startsWith_def)

text \<open>
  The claim C3 as stated (the key is recorded before the entry's argument tokens) fails on
  the specification's own example: the token \<^verbatim>\<open>mcp-server-fetch\<close> is recorded before the
  key \<^verbatim>\<open>fetch\<close>.
\<close>

theorem key_first_counterexample:
  "entries (JObj [(''fetch'', JObj [(''args'', JArr [JStr ''-y'', JStr ''mcp-server-fetch''])])])
     = Inr [(''fetch'', JObj [(''args'', JArr [JStr ''-y'', JStr ''mcp-server-fetch''])])]
 \<and> collectPackages
      (JObj [(''mcpServers'',
              JObj [(''fetch'', JObj [(''args'', JArr [JStr ''-y'', JStr ''mcp-server-fetch''])])])])
     = Inr [''mcp-server-fetch'', ''fetch'']
 \<and> collectPackages
      (JObj [(''mcpServers'',
              JObj [(''fetch'', JObj [(''args'', JArr [JStr ''-y'', JStr ''mcp-server-fetch''])])])])
     \<noteq> Inr [''fetch'', ''mcp-server-fetch'']"
  by (simp add: collectPackages_def servers_of_def is_candidate_def startsWith_def)

theorem key_follows_its_arguments_witness:
  "servers_of config_json
     = Inr (JObj [(''fetch'', JObj [(''args'', JArr [JStr ''-y'', JStr ''mcp-server-fetch''])])])
 \<and> entries (JObj [(''fetch'', JObj [(''args'', JArr [JStr ''-y'', JStr ''mcp-server-fetch''])])])
     = Inr ([] @ (''fetch'', JObj [(''args'', JArr [JStr ''-y'', JStr ''mcp-server-fetch''])]) # [])
 \<and> collectPackages config_json = Inr [''mcp-server-fetch'', ''fetch'']
 \<and> (\<exists>a args pre post.
        get_prop (JObj [(''args'', JArr [JStr ''-y'', JStr ''mcp-server-fetch''])]) ''args'' = Inr a
      \<and> iterate (json_or a (JArr [])) = Inr (map JStr args)
      \<and> scan_servers [] [] = Inr pre
      \<and> [''mcp-server-fetch'', ''fetch''] = pre @ filter is_candidate args @ [''fetch''] @ post)"
proof -
  have s: "servers_of config_json
     = Inr (JObj [(''fetch'', JObj [(''args'', JArr [JStr ''-y'', JStr ''mcp-server-fetch''])])])"
    by (simp add: servers_of_def config_json_def)
  have e: "entries (JObj [(''fetch'', JObj [(''args'', JArr [JStr ''-y'', JStr ''mcp-server-fetch''])])])
     = Inr ([] @ (''fetch'', JObj [(''args'', JArr [JStr ''-y'', JStr ''mcp-server-fetch''])]) # [])"
    by simp
  from key_follows_its_arguments [OF s e collect_config_json] s e collect_config_json
  show ?thesis by blast
qed

text \<open>
  C4. On the configuration text
  \<^verbatim>\<open>{"mcpServers": {"fetch": {"args": ["-y", "mcp-server-fetch"]}}}\<close>
  (\<open>config_text\<close>, which \<^verbatim>\<open>JSON.parse\<close> reads as \<open>config_json\<close>),
  \<open>extractPackagesFromConfig\<close> returns exactly the list of \<^verbatim>\<open>mcp-server-fetch\<close> and
  \<^verbatim>\<open>fetch\<close>: the launcher token \<^verbatim>\<open>-y\<close> is excluded and the server key is included.
\<close>

theorem extract_fetch_example:
  assumes "readFileSync w path = Inr config_text"
    and "JSON_parse_config w config_text = Inr config_json"
  shows "extractPackagesFromConfig w path = Inr [''mcp-server-fetch'', ''fetch'']"
  using assms by (simp add: extractPackagesFromConfig_def collect_config_json new_Set_def)

theorem extract_fetch_example_witness:
  "readFileSync sample_world config_path = Inr config_text
 \<and> JSON_parse_config sample_world config_text = Inr config_json
 \<and> extractPackagesFromConfig sample_world config_path = Inr [''mcp-server-fetch'', ''fetch'']"
proof -
  have r: "readFileSync sample_world config_path = Inr config_text"
    by (simp add: sample_world_def)
  have p: "JSON_parse_config sample_world config_text = Inr config_json"
    by (simp add: sample_world_def)
  from extract_fetch_example [OF r p] r p show ?thesis by simp
qed

subsection \<open>Lookups and the sort of the scan handler\<close>


lemma all_or_error_map:
  "all_or_error (map f xs) = Inr rs \<Longrightarrow> list_all2 (\<lambda>x r. f x = Inr r) xs rs"
proof (induction xs arbitrary: rs)
  case Nil
  then show ?case by simp
next
  case (Cons x xs)
  then show ?case by (cases "f x") (auto split: sum.splits)
qed


lemma fetchSkill_error_fields:
  assumes "fetchSkill w name = Inr r" and "error r \<noteq> None"
  shows "trust_score r = None \<and> latest_risk_score r = None \<and> total_findings r = 0
       \<and> total_reports r = 0 \<and> scan_type r = ''unknown'' \<and> slug r = name \<and> display_name r = name"
  using assms
  by (auto simp: fetchSkill_def fetchSkill_try_def not_found_result_def caught_result_def
        mapped_result_def split: sum.splits option.splits parsed.splits)








text \<open>
  C9. Every record returned by \<open>fetchSkill\<close> with the error field present has null trust
  and risk scores, zero finding and report counts, the scan type \<^verbatim>\<open>unknown\<close>, and the
  queried name as slug and display name. Consequently the elevated-risk filter of the scan
  handler (no truthy error, and a risk score, or 0, of at least 40) selects exactly the
  lookup results whose risk score, or 0, is at least 40, and the two counts agree.
\<close>

theorem fetchSkill_error_invariant:
  "(\<forall>r. fetchSkill w name = Inr r \<and> error r \<noteq> None \<longrightarrow>
        trust_score r = None \<and> latest_risk_score r = None \<and> total_findings r = 0
      \<and> total_reports r = 0 \<and> scan_type r = ''unknown'' \<and> slug r = name \<and> display_name r = name)
 \<and> (\<forall>results. all_or_error (map (fetchSkill w) packages) = Inr results \<longrightarrow>
        risky results = filter (\<lambda>r. 40 \<le> risk_or r 0) results
      \<and> length (risky results) = length (filter (\<lambda>r. 40 \<le> risk_or r 0) results))"
proof (intro conjI allI impI)
  fix results
  assume res: "all_or_error (map (fetchSkill w) packages) = Inr results"
  have "\<not> truthy (error r) \<and> 40 \<le> risk_or r 0 \<longleftrightarrow> 40 \<le> risk_or r 0" if "r \<in> set results" for r
  proof (cases "error r")
    case None
    then show ?thesis by simp
  next
    case (Some e)
    from all_or_error_map [OF res] that obtain name where "fetchSkill w name = Inr r"
      by (auto simp: list_all2_conv_all_nth in_set_conv_nth)
    with Some have "latest_risk_score r = None"
      using fetchSkill_error_fields [of w name r] by simp
    then show ?thesis by (simp add: risk_or_def)
  qed
  then show "risky results = filter (\<lambda>r. 40 \<le> risk_or r 0) results"
    unfolding risky_def by (intro filter_cong) auto
  then show "length (risky results) = length (filter (\<lambda>r. 40 \<le> risk_or r 0) results)"
    by simp
qed (use fetchSkill_error_fields in blast)+

subsection \<open>The sample environment at work\<close>

lemma show_nat_Suc_0: "show_nat (Suc 0) = ''1''"
  by code_simp

lemma show_nat_Suc_Suc_0: "show_nat (Suc (Suc 0)) = ''2''"
  by code_simp



lemma sample_fetchSkill_missing:
  "fetchSkill sample_world ''mcp-server-fetch'' = Inr (not_found_result ''mcp-server-fetch'')"
  by (simp add: fetchSkill_def fetchSkill_try_def apiFetch_def sample_world_def sample_fetch_def
        API_BASE_def ok_def startsWith_def html_404_def)

lemma sample_fetchSkill_fetch:
  "fetchSkill sample_world ''fetch'' = Inr (mapped_result ''fetch'' fetch_doc)"
  by (simp add: fetchSkill_def fetchSkill_try_def apiFetch_def sample_world_def sample_fetch_def
        API_BASE_def ok_def startsWith_def fetch_body_def)

lemma sample_results:
  "all_or_error (map (fetchSkill sample_world) [''mcp-server-fetch'', ''fetch''])
     = Inr [not_found_result ''mcp-server-fetch'', mapped_result ''fetch'' fetch_doc]"
  by (simp add: sample_fetchSkill_missing sample_fetchSkill_fetch)

lemma sample_scores:
  "latest_risk_score (not_found_result ''mcp-server-fetch'') = None"
  "latest_risk_score (mapped_result ''fetch'' fetch_doc) = Some 80"
  "error (not_found_result ''mcp-server-fetch'') = Some ''Package not found in AgentAudit database''"
  "error (mapped_result ''fetch'' fetch_doc) = None"
  by (simp_all add: not_found_result_def mapped_result_def fetch_doc_def no_doc_def)





theorem fetchSkill_error_invariant_witness:
  "fetchSkill sample_world ''mcp-server-fetch'' = Inr (not_found_result ''mcp-server-fetch'')
 \<and> error (not_found_result ''mcp-server-fetch'') \<noteq> None
 \<and> trust_score (not_found_result ''mcp-server-fetch'') = None
 \<and> latest_risk_score (not_found_result ''mcp-server-fetch'') = None
 \<and> total_findings (not_found_result ''mcp-server-fetch'') = 0
 \<and> total_reports (not_found_result ''mcp-server-fetch'') = 0
 \<and> scan_type (not_found_result ''mcp-server-fetch'') = ''unknown''
 \<and> slug (not_found_result ''mcp-server-fetch'') = ''mcp-server-fetch''
 \<and> display_name (not_found_result ''mcp-server-fetch'') = ''mcp-server-fetch''
 \<and> all_or_error (map (fetchSkill sample_world) [''mcp-server-fetch'', ''fetch''])
     = Inr [not_found_result ''mcp-server-fetch'', mapped_result ''fetch'' fetch_doc]
 \<and> risky [not_found_result ''mcp-server-fetch'', mapped_result ''fetch'' fetch_doc]
     = filter (\<lambda>r. 40 \<le> risk_or r 0)
         [not_found_result ''mcp-server-fetch'', mapped_result ''fetch'' fetch_doc]
 \<and> length (risky [not_found_result ''mcp-server-fetch'', mapped_result ''fetch'' fetch_doc]) = 1"
proof -
  have e: "error (not_found_result ''mcp-server-fetch'') \<noteq> None"
    by (simp add: sample_scores)
  from fetchSkill_error_invariant [of sample_world "''mcp-server-fetch''" "[''mcp-server-fetch'', ''fetch'']"]
       sample_fetchSkill_missing e sample_results
  have "trust_score (not_found_result ''mcp-server-fetch'') = None
      \<and> latest_risk_score (not_found_result ''mcp-server-fetch'') = None
      \<and> total_findings (not_found_result ''mcp-server-fetch'') = 0
      \<and> total_reports (not_found_result ''mcp-server-fetch'') = 0
      \<and> scan_type (not_found_result ''mcp-server-fetch'') = ''unknown''
      \<and> slug (not_found_result ''mcp-server-fetch'') = ''mcp-server-fetch''
      \<and> display_name (not_found_result ''mcp-server-fetch'') = ''mcp-server-fetch''
      \<and> risky [not_found_result ''mcp-server-fetch'', mapped_result ''fetch'' fetch_doc]
          = filter (\<lambda>r. 40 \<le> risk_or r 0)
              [not_found_result ''mcp-server-fetch'', mapped_result ''fetch'' fetch_doc]"
    by blast
  then show ?thesis
    using sample_fetchSkill_missing e sample_results
    by (simp add: risk_or_def sample_scores)
qed

subsection \<open>Searching the package list\<close>

lemma includes_str_empty: "includes_str s []"
  by (cases s) simp_all

lemma matches_empty_query: "matches_query (toLowerCase []) s"
  by (simp add: matches_query_def toLowerCase_def includes_str_empty)

lemma slice0_positive: "1 \<le> l \<Longrightarrow> slice0 xs l = take (nat l) xs"
  by (simp add: slice0_def)

lemma search_try_list:
  assumes "apiFetch (JSON_parse_list w) (fetch w) (API_BASE @ ''/skills'') = Inr (Some (Array all))"
  shows "search_packages w query limit =
     (let matches = slice0 (filter (matches_query (toLowerCase query)) all)
                      (case limit of Some l \<Rightarrow> l | None \<Rightarrow> 10)
      in if matches = [] then
           ''No packages matching '' @ dquote @ query @ dquote
             @ '' found in AgentAudit database ('' @ show_nat (length all) @ '' total packages).''
         else join newline
                ((glyph_search @ '' '' @ show_nat (length matches) @ '' results for ''
                    @ dquote @ query @ dquote @ '' ('' @ show_nat (length all)
                    @ '' total in database)'' @ newline)
                 # map search_line matches))"
  using assms by (simp add: search_packages_def search_try_def Let_def)

text \<open>
  C5 (amended). For every fetched package list, query and limit of at least 1 (10 when
  omitted), \<open>search_packages\<close> shows the first matches, up to the limit, of the
  case-insensitive substring test on slug or display name, one formatted line each; when
  there are more matches than the limit it returns exactly limit lines. The header states
  the number of lines shown (the count after truncation, not the total number of matches)
  and the size of the fetched list. When nothing matches, whatever the limit, it reports
  the no-matches message with the size of the fetched list.
\<close>

theorem search_packages_truncates:
  assumes "apiFetch (JSON_parse_list w) (fetch w) (API_BASE @ ''/skills'') = Inr (Some (Array all))"
  shows "(let found = filter (matches_query (toLowerCase query)) all;
              l = (case limit of Some l \<Rightarrow> l | None \<Rightarrow> 10);
              shown = take (nat l) found
          in (found = [] \<longrightarrow>
                search_packages w query limit
                  = ''No packages matching '' @ dquote @ query @ dquote
                      @ '' found in AgentAudit database ('' @ show_nat (length all)
                      @ '' total packages).'')
           \<and> (1 \<le> l \<and> found \<noteq> [] \<longrightarrow>
                search_packages w query limit
                  = join newline
                      ((glyph_search @ '' '' @ show_nat (length shown) @ '' results for ''
                          @ dquote @ query @ dquote @ '' ('' @ show_nat (length all)
                          @ '' total in database)'' @ newline)
                       # map search_line shown)
              \<and> length shown = min (nat l) (length found))
           \<and> (1 \<le> l \<and> l < int (length found) \<longrightarrow> length shown = nat l))"
proof -
  let ?found = "filter (matches_query (toLowerCase query)) all"
  let ?l = "case limit of Some l \<Rightarrow> l | None \<Rightarrow> 10"
  have empty: "?found = [] \<Longrightarrow> slice0 ?found ?l = []"
    by (simp add: slice0_def)
  have some: "1 \<le> ?l \<Longrightarrow> ?found \<noteq> [] \<Longrightarrow> slice0 ?found ?l = take (nat ?l) ?found
                \<and> take (nat ?l) ?found \<noteq> []"
    by (simp add: slice0_positive)
  show ?thesis
    unfolding Let_def
  proof (intro conjI impI)
    assume "?found = []"
    with empty show "search_packages w query limit
        = ''No packages matching '' @ dquote @ query @ dquote
            @ '' found in AgentAudit database ('' @ show_nat (length all) @ '' total packages).''"
      using search_try_list [OF assms, of query limit] by (simp add: Let_def)
  next
    assume a: "1 \<le> ?l \<and> ?found \<noteq> []"
    with some show "search_packages w query limit
        = join newline
            ((glyph_search @ '' '' @ show_nat (length (take (nat ?l) ?found)) @ '' results for ''
                @ dquote @ query @ dquote @ '' ('' @ show_nat (length all)
                @ '' total in database)'' @ newline)
             # map search_line (take (nat ?l) ?found))"
      using search_try_list [OF assms, of query limit] by (simp add: Let_def)
  next
    show "length (take (nat ?l) ?found) = min (nat ?l) (length ?found)"
      by simp
  next
    assume "1 \<le> ?l \<and> ?l < int (length ?found)"
    then have "nat ?l \<le> length ?found"
      by linarith
    then show "length (take (nat ?l) ?found) = nat ?l"
      by (simp add: min_def)
  qed
qed

text \<open>
  C10 (amended). For the empty query, every entry of the fetched list matches; when the
  list is not empty and the limit is at least 1 (10 when omitted), the output is the
  header and the lines of the first \<open>min limit (length list)\<close> entries in fetch order, not
  the no-matches message.
\<close>

theorem search_empty_query:
  assumes "apiFetch (JSON_parse_list w) (fetch w) (API_BASE @ ''/skills'') = Inr (Some (Array all))"
    and "all \<noteq> []"
    and "limit = None \<or> (\<exists>l. limit = Some l \<and> 1 \<le> l)"
  shows "(let n = min (nat (case limit of Some l \<Rightarrow> l | None \<Rightarrow> 10)) (length all)
          in filter (matches_query (toLowerCase [])) all = all
           \<and> 0 < n
           \<and> search_packages w [] limit
               = join newline
                   ((glyph_search @ '' '' @ show_nat n @ '' results for '' @ dquote @ dquote
                       @ '' ('' @ show_nat (length all) @ '' total in database)'' @ newline)
                    # map search_line (take n all)))"
proof -
  let ?l = "case limit of Some l \<Rightarrow> l | None \<Rightarrow> 10"
  have all: "filter (matches_query (toLowerCase [])) all = all"
    by (simp add: matches_empty_query)
  from assms(3) have l: "1 \<le> ?l" by auto
  with assms(2) have n: "0 < min (nat ?l) (length all)" by simp
  have t: "take (min (nat ?l) (length all)) all = take (nat ?l) all"
    by (cases "nat ?l \<le> length all") (simp_all add: min_def)
  from l assms(2) have "take (nat ?l) all \<noteq> []" by simp
  with l have "search_packages w [] limit
      = join newline
          ((glyph_search @ '' '' @ show_nat (min (nat ?l) (length all)) @ '' results for ''
              @ dquote @ dquote @ '' ('' @ show_nat (length all) @ '' total in database)'' @ newline)
           # map search_line (take (nat ?l) all))"
    using search_try_list [OF assms(1), of "[]" limit]
    by (simp add: Let_def all slice0_positive min.commute)
  then have sp: "search_packages w [] limit
      = join newline
          ((glyph_search @ '' '' @ show_nat (min (nat ?l) (length all)) @ '' results for ''
              @ dquote @ dquote @ '' ('' @ show_nat (length all) @ '' total in database)'' @ newline)
           # map search_line (take (min (nat ?l) (length all)) all))"
    by (simp only: t)
  from all n sp show ?thesis
    unfolding Let_def by (intro conjI)
qed

lemma sample_list_fetch:
  "apiFetch (JSON_parse_list sample_world) (fetch sample_world) (API_BASE @ ''/skills'')
     = Inr (Some (Array package_list))"
  by (simp add: apiFetch_def sample_world_def sample_fetch_def API_BASE_def ok_def
        startsWith_def list_body_def)

lemma package_list_size: "show_nat (length package_list) = ''3''"
  by code_simp

lemma package_list_nonempty: "package_list \<noteq> []"
  by (simp add: package_list_def)

lemma crew_matches:
  "filter (matches_query (toLowerCase ''crew'')) package_list = [crewai_doc, crewai_tools_doc]"
  by code_simp

lemma zzz_matches: "filter (matches_query (toLowerCase ''zzz'')) package_list = []"
  by code_simp

lemma search_line_crewai:
  "search_line crewai_doc
     = glyph_red @ '' **CrewAI** '' @ em_dash @ '' Trust: 0/100, Risk: 100/100, Verdict: UNSAFE''"
  by code_simp

lemma search_line_crewai_tools:
  "search_line crewai_tools_doc
     = glyph_unknown @ '' **crewai-tools** '' @ em_dash @ '' Trust: 90/100, Risk: ?/100, Verdict: PASS''"
  by code_simp

lemma search_line_fetch:
  "search_line (no_doc\<lparr>doc_slug := Val ''fetch''\<rparr>)
     = glyph_green @ '' **fetch** '' @ em_dash @ '' Trust: ?/100, Risk: ?/100, Verdict: ?''"
  by code_simp

text \<open>
  The claim C5 as stated (the header states the total number of matches, independent of
  the limit) fails on the query \<^verbatim>\<open>crew\<close> with limit 1 against a list of three packages
  of which two match: the header reads \<^verbatim>\<open>1 results\<close>, the count after truncation, and 3 is
  the size of the list.
\<close>

theorem search_header_counterexample:
  "length (filter (matches_query (toLowerCase ''crew'')) package_list) = 2
 \<and> search_packages sample_world ''crew'' (Some 1)
     = join newline
         [glyph_search @ '' 1 results for '' @ dquote @ ''crew'' @ dquote
            @ '' (3 total in database)'' @ newline,
          glyph_red @ '' **CrewAI** '' @ em_dash @ '' Trust: 0/100, Risk: 100/100, Verdict: UNSAFE'']"
  using search_try_list [OF sample_list_fetch, of "''crew''" "Some 1"]
  by (simp add: Let_def crew_matches slice0_def package_list_size search_line_crewai show_nat_Suc_0)

theorem search_packages_truncates_witness:
  "apiFetch (JSON_parse_list sample_world) (fetch sample_world) (API_BASE @ ''/skills'')
     = Inr (Some (Array package_list))
 \<and> filter (matches_query (toLowerCase ''zzz'')) package_list = []
 \<and> search_packages sample_world ''zzz'' (Some 3)
     = ''No packages matching '' @ dquote @ ''zzz'' @ dquote
         @ '' found in AgentAudit database (3 total packages).''
 \<and> filter (matches_query (toLowerCase ''crew'')) package_list = [crewai_doc, crewai_tools_doc]
 \<and> search_packages sample_world ''crew'' (Some 1)
     = join newline
         [glyph_search @ '' 1 results for '' @ dquote @ ''crew'' @ dquote
            @ '' (3 total in database)'' @ newline,
          search_line crewai_doc]
 \<and> length (take (nat 1) [crewai_doc, crewai_tools_doc]) = nat 1
 \<and> search_packages sample_world ''crew'' None
     = join newline
         [glyph_search @ '' 2 results for '' @ dquote @ ''crew'' @ dquote
            @ '' (3 total in database)'' @ newline,
          search_line crewai_doc,
          search_line crewai_tools_doc]"
  using search_packages_truncates [OF sample_list_fetch, of "''zzz''" "Some 3"]
        search_packages_truncates [OF sample_list_fetch, of "''crew''" "Some 1"]
        search_packages_truncates [OF sample_list_fetch, of "''crew''" None]
  by (simp add: Let_def sample_list_fetch crew_matches zzz_matches package_list_size
        show_nat_Suc_0 show_nat_Suc_Suc_0)

text \<open>
  The claim C10 as stated (no no-matches message whenever the list is not empty) fails at
  limit 0: \<^verbatim>\<open>slice(0, 0)\<close> keeps nothing and the handler reports no matches.
\<close>

theorem search_empty_query_counterexample:
  "package_list \<noteq> []
 \<and> apiFetch (JSON_parse_list sample_world) (fetch sample_world) (API_BASE @ ''/skills'')
     = Inr (Some (Array package_list))
 \<and> search_packages sample_world [] (Some 0)
     = ''No packages matching '' @ dquote @ dquote
         @ '' found in AgentAudit database (3 total packages).''"
  using search_try_list [OF sample_list_fetch, of "[]" "Some 0"]
  by (simp add: Let_def sample_list_fetch package_list_nonempty slice0_def package_list_size)

theorem search_empty_query_witness:
  "apiFetch (JSON_parse_list sample_world) (fetch sample_world) (API_BASE @ ''/skills'')
     = Inr (Some (Array package_list))
 \<and> package_list \<noteq> []
 \<and> filter (matches_query (toLowerCase [])) package_list = package_list
 \<and> search_packages sample_world [] (Some 2)
     = join newline
         [glyph_search @ '' 2 results for '' @ dquote @ dquote
            @ '' (3 total in database)'' @ newline,
          search_line crewai_doc,
          search_line crewai_tools_doc]
 \<and> search_packages sample_world [] None
     = join newline
         [glyph_search @ '' 3 results for '' @ dquote @ dquote
            @ '' (3 total in database)'' @ newline,
          search_line crewai_doc,
          search_line crewai_tools_doc,
          search_line (no_doc\<lparr>doc_slug := Val ''fetch''\<rparr>)]"
proof -
  have two: "Some 2 = None \<or> (\<exists>l. Some 2 = Some l \<and> (1::int) \<le> l)"
    by simp
  have none: "(None :: int option) = None \<or> (\<exists>l. (None :: int option) = Some l \<and> 1 \<le> l)"
    by simp
  have len: "length package_list = 3"
    by (simp add: package_list_def)
  have t2: "take 2 package_list = [crewai_doc, crewai_tools_doc]"
    and t3: "take 3 package_list = [crewai_doc, crewai_tools_doc, no_doc\<lparr>doc_slug := Val ''fetch''\<rparr>]"
    by (simp_all add: package_list_def)
  have n2: "show_nat 2 = ''2''" and n3: "show_nat 3 = ''3''"
    by code_simp+
  from search_empty_query [OF sample_list_fetch package_list_nonempty two]
       search_empty_query [OF sample_list_fetch package_list_nonempty none]
  show ?thesis
    by (simp add: Let_def sample_list_fetch package_list_nonempty len t2 t3 n2 n3)
qed

end
